theory Spec2Isabelle
  imports Main
begin

section \<open>Python values, exceptions and the outside world\<close>

text \<open>
  A \<^typ>\<open>string\<close> is the sequence of characters of a Python \<open>str\<close>, one \<^typ>\<open>char\<close>
  per character; \<^const>\<open>length\<close> is Python's \<open>len\<close>. Characters beyond the 256 values of
  \<^typ>\<open>char\<close> are outside the model.
\<close>

text \<open>The values \<open>json.loads\<close> can build. An object lists its items in the order of the dict.\<close>

datatype json =
    JNull
  | JBool bool
  | JInt int
  | JFloat string
  | JStr string
  | JArr "json list"
  | JObj "(string \<times> json) list"

text \<open>
  The exceptions the code meets. \<open>CalledProcessError\<close> carries \<open>str(e)\<close> and \<open>e.stderr\<close>; the
  others carry \<open>str(e)\<close>. All of them are subclasses of \<open>Exception\<close>. Only a
  \<open>json.JSONDecodeError\<close> itself is a \<open>JSONDecodeError\<close> here: any other \<open>ValueError\<close> is a
  \<open>ValueError\<close>, and an exception of a class not listed (a \<open>RecursionError\<close>, a
  \<open>PermissionError\<close>) is an \<open>OtherError\<close>.
\<close>

datatype exn =
    CalledProcessError string string
  | FileNotFoundError string
  | TypeError string
  | AttributeError string
  | ValueError string
  | IndexError string
  | JSONDecodeError string
  | OtherError string

fun exn_str :: "exn \<Rightarrow> string" where
  "exn_str (CalledProcessError m _) = m"
| "exn_str (FileNotFoundError m) = m"
| "exn_str (TypeError m) = m"
| "exn_str (AttributeError m) = m"
| "exn_str (ValueError m) = m"
| "exn_str (IndexError m) = m"
| "exn_str (JSONDecodeError m) = m"
| "exn_str (OtherError m) = m"

text \<open>The messages of the remote chat endpoint's protocol.\<close>

datatype tool_call = ToolCall (tc_id: string) (tc_name: string) (tc_arguments: string)

datatype chat_message = ChatMessage (msg_content: "string option") (msg_tool_calls: "tool_call list")

datatype message =
    SystemMessage string
  | UserMessage string
  | AssistantMessage chat_message
  | ToolMessage string string

text \<open>The value of \<open>MAX_REVIEW_ITERATIONS\<close> in the environment, as \<open>int\<close> reads it.\<close>

datatype env_int = Unset | IntValue int | NotAnInt string

text \<open>
  Everything the code reaches outside itself:
  \<^item> \<open>subprocess_run argv\<close>: \<open>subprocess.run(argv, capture_output=True, text=True, check=True)\<close>,
    the captured standard output or the exception raised;
  \<^item> \<open>open_read p\<close>: \<open>open(p, "r", encoding="utf-8")\<close> followed by \<open>read()\<close>, for any
    Python value \<open>p\<close>;
  \<^item> \<open>as_posix\<close>: \<open>Path(p).as_posix()\<close>;
  \<^item> \<open>py_str\<close>: \<open>str(v)\<close> of a value that is not a string;
  \<^item> \<open>json_loads\<close>: \<open>json.loads\<close>, the value or the exception raised: a
    \<open>JSONDecodeError\<close> for a text that is no JSON, a \<open>ValueError\<close> for an integer of too
    many digits, a \<open>RecursionError\<close> for a nesting that is too deep;
  \<^item> \<open>utf8_decode\<close>: \<open>bytes.decode("utf-8", "replace")\<close> of bytes that are not all ASCII;
  \<^item> \<open>set_iter xs\<close>: \<open>list(set(xs))\<close>, the elements of the set built from \<open>xs\<close> in
    the order in which Python iterates it;
  \<^item> \<open>ZHIPU_API_KEY\<close>, \<open>MAX_REVIEW_ITERATIONS\<close>: the environment variables;
  \<^item> \<open>chat_completions_create\<close>: the remote model, from the transcript to the list of
    choices of its response, or the exception of the transport.
\<close>

record world =
  subprocess_run :: "string list \<Rightarrow> exn + string"
  open_read :: "json \<Rightarrow> exn + string"
  as_posix :: "string \<Rightarrow> string"
  py_str :: "json \<Rightarrow> string"
  json_loads :: "string \<Rightarrow> exn + json"
  utf8_decode :: "string \<Rightarrow> string"
  set_iter :: "string list \<Rightarrow> string list"
  ZHIPU_API_KEY :: "string option"
  MAX_REVIEW_ITERATIONS :: env_int
  chat_completions_create :: "message list \<Rightarrow> exn + chat_message list"

section \<open>String helpers of the Python library\<close>

text \<open>The characters \<open>str.isspace\<close> accepts, which are also those of \<open>\s\<close> in a pattern.\<close>

definition is_space :: "char \<Rightarrow> bool" where
  "is_space c \<longleftrightarrow> c \<in> set [CHR 0x09, CHR 0x0A, CHR 0x0B, CHR 0x0C, CHR 0x0D,
     CHR 0x1C, CHR 0x1D, CHR 0x1E, CHR 0x1F, CHR 0x20, CHR 0x85, CHR 0xA0]"

definition py_strip :: "string \<Rightarrow> string" where
  "py_strip s = rev (dropWhile is_space (rev (dropWhile is_space s)))"

fun py_join :: "string \<Rightarrow> string list \<Rightarrow> string" where
  "py_join sep [] = []"
| "py_join sep [x] = x"
| "py_join sep (x # y # ys) = x @ sep @ py_join sep (y # ys)"

text \<open>\<open>s.split(sep)\<close> for a separator of one character.\<close>

fun py_split :: "char \<Rightarrow> string \<Rightarrow> string list" where
  "py_split sep [] = [[]]"
| "py_split sep (c # cs) =
     (if c = sep then [] # py_split sep cs
      else (case py_split sep cs of [] \<Rightarrow> [[c]] | x # xs \<Rightarrow> (c # x) # xs))"

fun strip_prefix :: "string \<Rightarrow> string \<Rightarrow> string option" where
  "strip_prefix [] s = Some s"
| "strip_prefix (p # ps) [] = None"
| "strip_prefix (p # ps) (c # cs) = (if p = c then strip_prefix ps cs else None)"

section \<open>Version control queries\<close>

definition EXCLUDE_PATTERNS :: "string list" where
  "EXCLUDE_PATTERNS = [''*.lock'', ''*.json'', ''*.svg'', ''*.png'', ''*.jpg'', ''*.woff'',
     ''*.woff2'', ''uv.lock'', ''package-lock.json'', ''yarn.lock'', ''pnpm-lock.yaml'']"

text \<open>The argument vector \<open>get_git_diff\<close> builds: the command, then one pair per pattern.\<close>

definition get_git_diff_args :: "string \<Rightarrow> string list" where
  "get_git_diff_args target =
     foldl (\<lambda>args pattern. args @ [''--'', '':!'' @ pattern])
       (if target = ''staged'' then [''git'', ''diff'', ''--staged'']
        else if target = ''unstaged'' then [''git'', ''diff'']
        else [''git'', ''diff'', target])
       EXCLUDE_PATTERNS"

text \<open>
  The functions that run a subprocess return, next to their result, the argument vectors of
  the subprocesses they started, in order.
\<close>

definition get_git_diff :: "world \<Rightarrow> string \<Rightarrow> (exn + string) \<times> string list list" where
  "get_git_diff w target =
     (let args = get_git_diff_args target in
      (case subprocess_run w args of
         Inr out \<Rightarrow> Inr out
       | Inl (CalledProcessError m err) \<Rightarrow> Inr (''Error running git diff: '' @ err)
       | Inl (FileNotFoundError m) \<Rightarrow> Inr ''Error: git is not installed or not in PATH''
       | Inl e \<Rightarrow> Inl e,
       [args]))"

definition changed_staged_args :: "string list" where
  "changed_staged_args = [''git'', ''diff'', ''--staged'', ''--name-only'']"

definition changed_unstaged_args :: "string list" where
  "changed_unstaged_args = [''git'', ''diff'', ''--name-only'']"

definition get_changed_files :: "world \<Rightarrow> (exn + string list) \<times> string list list" where
  "get_changed_files w =
     (case subprocess_run w changed_staged_args of
        Inl (CalledProcessError m err) \<Rightarrow> (Inr [], [changed_staged_args])
      | Inl e \<Rightarrow> (Inl e, [changed_staged_args])
      | Inr staged \<Rightarrow>
          (case subprocess_run w changed_unstaged_args of
             Inl (CalledProcessError m err) \<Rightarrow> Inr []
           | Inl e \<Rightarrow> Inl e
           | Inr unstaged \<Rightarrow>
               (let files = set_iter w (py_split CHR 0x0A (py_strip staged)
                                          @ py_split CHR 0x0A (py_strip unstaged))
                in Inr (filter (\<lambda>f. f \<noteq> []) files)),
           [changed_staged_args, changed_unstaged_args]))"

definition scoped_diff_args :: "world \<Rightarrow> string \<Rightarrow> string \<Rightarrow> string list" where
  "scoped_diff_args w target filepath =
     (let normalized = as_posix w filepath in
      if target = ''staged'' then [''git'', ''diff'', ''--staged'', ''--'', normalized]
      else if target = ''unstaged'' then [''git'', ''diff'', ''--'', normalized]
      else [''git'', ''diff'', target, ''--'', normalized])"

text \<open>One turn of the loop of \<open>get_scoped_diff\<close>, on the list \<open>diffs\<close> and the started commands.\<close>

definition scoped_diff_step ::
  "world \<Rightarrow> string \<Rightarrow> string list \<times> string list list \<Rightarrow> string \<Rightarrow> string list \<times> string list list"
where
  "scoped_diff_step w target acc filepath =
     (let args = scoped_diff_args w target filepath in
      (case subprocess_run w args of
         Inr out \<Rightarrow>
           (if py_strip out \<noteq> [] then fst acc @ [''# Diff for: '' @ filepath @ ''\<newline>'' @ out]
            else fst acc)
       | Inl (CalledProcessError m err) \<Rightarrow> fst acc @ [''# No diff available for: '' @ filepath]
       | Inl e \<Rightarrow> fst acc @ [''# Error getting diff for '' @ filepath @ '': '' @ exn_str e],
       snd acc @ [args]))"

definition get_scoped_diff :: "world \<Rightarrow> string list \<Rightarrow> string \<Rightarrow> string \<times> string list list" where
  "get_scoped_diff w files target =
     (if files = [] then ([], [])
      else (let r = foldl (scoped_diff_step w target) ([], []) files
            in (py_join ''\<newline>\<newline>'' (fst r), snd r)))"

section \<open>Links in documents\<close>

text \<open>
  \<open>urllib.parse.unquote\<close>: in every maximal run of ASCII characters each \<open>%XX\<close> with two
  hexadecimal digits becomes the byte \<open>XX\<close>, any other \<open>%\<close> stays, and the bytes of the run
  are decoded as UTF-8; characters that are not ASCII are kept.
\<close>

definition hex_digit :: "char \<Rightarrow> nat option" where
  "hex_digit c =
     (let n = (of_char c :: nat) in
      if 48 \<le> n \<and> n \<le> 57 then Some (n - 48)
      else if 65 \<le> n \<and> n \<le> 70 then Some (n - 55)
      else if 97 \<le> n \<and> n \<le> 102 then Some (n - 87)
      else None)"

fun unquote_to_bytes :: "string \<Rightarrow> string" where
  "unquote_to_bytes [] = []"
| "unquote_to_bytes [c] = [c]"
| "unquote_to_bytes [c, d] = [c, d]"
| "unquote_to_bytes (c # a # b # rest) =
     (if c = CHR ''%'' then
        (case (hex_digit a, hex_digit b) of
           (Some x, Some y) \<Rightarrow> char_of (16 * x + y) # unquote_to_bytes rest
         | _ \<Rightarrow> c # unquote_to_bytes (a # b # rest))
      else c # unquote_to_bytes (a # b # rest))"

definition is_ascii :: "char \<Rightarrow> bool" where
  "is_ascii c \<longleftrightarrow> (of_char c :: nat) < 128"

definition bytes_decode :: "world \<Rightarrow> string \<Rightarrow> string" where
  "bytes_decode w bs = (if list_all is_ascii bs then bs else utf8_decode w bs)"

function unquote_parts :: "world \<Rightarrow> string \<Rightarrow> string" where
  "unquote_parts w [] = []"
| "unquote_parts w (c # cs) =
     (if is_ascii c then
        bytes_decode w (unquote_to_bytes (takeWhile is_ascii (c # cs)))
          @ unquote_parts w (dropWhile is_ascii cs)
      else c # unquote_parts w cs)"
  by pat_completeness auto
termination
  by (relation "measure (\<lambda>(w, s). length s)") (auto simp: length_dropWhile_le less_Suc_eq_le)

definition unquote :: "world \<Rightarrow> string \<Rightarrow> string" where
  "unquote w s = (if CHR ''%'' \<notin> set s then s else unquote_parts w s)"

definition normalize_file_uri_path :: "string \<Rightarrow> string" where
  "normalize_file_uri_path path =
     (if length path > 1 \<and> path ! 1 = CHR '':'' then path
      else if \<not> (case path of [] \<Rightarrow> False | c # _ \<Rightarrow> c = CHR ''/'') then ''/'' @ path
      else path)"

text \<open>
  A match of \<open>render_diffs\s*\(\s*file:///([^)]+)\s*\)\<close> at the start of the text: the group
  and the text after the match. The group is greedy and takes every character up to the next
  closing parenthesis, white space included, so the \<open>\s*\<close> after it matches nothing.
\<close>

definition match_render_diff :: "string \<Rightarrow> (string \<times> string) option" where
  "match_render_diff s =
     (case strip_prefix ''render_diffs'' s of
        None \<Rightarrow> None
      | Some s1 \<Rightarrow>
          (case strip_prefix ''('' (dropWhile is_space s1) of
             None \<Rightarrow> None
           | Some s2 \<Rightarrow>
               (case strip_prefix ''file:///'' (dropWhile is_space s2) of
                  None \<Rightarrow> None
                | Some s3 \<Rightarrow>
                    (let g = takeWhile (\<lambda>c. c \<noteq> CHR '')'') s3 in
                     if g = [] then None
                     else (case dropWhile (\<lambda>c. c \<noteq> CHR '')'') s3 of
                             [] \<Rightarrow> None
                           | _ # rest \<Rightarrow> Some (g, rest))))))"

text \<open>
  A match of \<open>\[([^\]]*)\]\(file:///([^)]+)\)\<close> at the start of the text: the second group
  and the text after the match.
\<close>

definition match_link :: "string \<Rightarrow> (string \<times> string) option" where
  "match_link s =
     (case strip_prefix ''['' s of
        None \<Rightarrow> None
      | Some s1 \<Rightarrow>
          (case strip_prefix ''](file:///'' (dropWhile (\<lambda>c. c \<noteq> CHR '']'') s1) of
             None \<Rightarrow> None
           | Some s2 \<Rightarrow>
               (let g = takeWhile (\<lambda>c. c \<noteq> CHR '')'') s2 in
                if g = [] then None
                else (case dropWhile (\<lambda>c. c \<noteq> CHR '')'') s2 of
                        [] \<Rightarrow> None
                      | _ # rest \<Rightarrow> Some (g, rest)))))"

lemma strip_prefix_length: "strip_prefix p s = Some r \<Longrightarrow> length r \<le> length s"
  by (induction p s rule: strip_prefix.induct) (auto split: if_splits)

lemma match_render_diff_shorter:
  assumes "match_render_diff s = Some (g, r)"
  shows "length r < length s"
proof -
  from assms obtain s1 s2 s3 where
    s1: "strip_prefix ''render_diffs'' s = Some s1" and
    s2: "strip_prefix ''('' (dropWhile is_space s1) = Some s2" and
    s3: "strip_prefix ''file:///'' (dropWhile is_space s2) = Some s3" and
    r: "dropWhile (\<lambda>c. c \<noteq> CHR '')'') s3 = CHR '')'' # r"
    unfolding match_render_diff_def Let_def
    by (auto split: option.splits list.splits if_splits dest: hd_dropWhile
        simp: dropWhile_eq_Cons_conv)
  have "length r < length (dropWhile (\<lambda>c. c \<noteq> CHR '')'') s3)"
    by (simp add: r)
  also have "\<dots> \<le> length s3"
    by (rule length_dropWhile_le)
  also have "\<dots> \<le> length (dropWhile is_space s2)"
    by (rule strip_prefix_length [OF s3])
  also have "\<dots> \<le> length s2"
    by (rule length_dropWhile_le)
  also have "\<dots> \<le> length (dropWhile is_space s1)"
    by (rule strip_prefix_length [OF s2])
  also have "\<dots> \<le> length s1"
    by (rule length_dropWhile_le)
  also have "\<dots> \<le> length s"
    by (rule strip_prefix_length [OF s1])
  finally show ?thesis .
qed

lemma match_link_shorter:
  assumes "match_link s = Some (g, r)"
  shows "length r < length s"
proof -
  from assms obtain s1 s2 where
    s1: "strip_prefix ''['' s = Some s1" and
    s2: "strip_prefix ''](file:///'' (dropWhile (\<lambda>c. c \<noteq> CHR '']'') s1) = Some s2" and
    r: "dropWhile (\<lambda>c. c \<noteq> CHR '')'') s2 = CHR '')'' # r"
    unfolding match_link_def Let_def
    by (auto split: option.splits list.splits if_splits simp: dropWhile_eq_Cons_conv)
  have "length r < length (dropWhile (\<lambda>c. c \<noteq> CHR '')'') s2)"
    by (simp add: r)
  also have "\<dots> \<le> length s2"
    by (rule length_dropWhile_le)
  also have "\<dots> \<le> length (dropWhile (\<lambda>c. c \<noteq> CHR '']'') s1)"
    by (rule strip_prefix_length [OF s2])
  also have "\<dots> \<le> length s1"
    by (rule length_dropWhile_le)
  also have "\<dots> \<le> length s"
    by (rule strip_prefix_length [OF s1])
  finally show ?thesis .
qed

text \<open>
  \<open>re.finditer\<close> with the first pattern: the groups of the leftmost matches that do not
  overlap, in order. After a match the search goes on behind it, otherwise one character on.
\<close>

function find_render_diffs :: "string \<Rightarrow> string list" where
  "find_render_diffs [] = []"
| "find_render_diffs (c # cs) =
     (case match_render_diff (c # cs) of
        Some (g, rest) \<Rightarrow> g # find_render_diffs rest
      | None \<Rightarrow> find_render_diffs cs)"
  by pat_completeness auto
termination
  by (relation "measure length") (auto dest: match_render_diff_shorter)

text \<open>\<open>re.finditer\<close> with the second pattern: the second groups of the matches, in order.\<close>

function find_links :: "string \<Rightarrow> string list" where
  "find_links [] = []"
| "find_links (c # cs) =
     (case match_link (c # cs) of
        Some (g, rest) \<Rightarrow> g # find_links rest
      | None \<Rightarrow> find_links cs)"
  by pat_completeness auto
termination
  by (relation "measure length") (auto dest: match_link_shorter)

text \<open>\<open>re.sub\<close> with the first pattern and a function of the group as replacement.\<close>

function sub_render_diffs :: "(string \<Rightarrow> string) \<Rightarrow> string \<Rightarrow> string" where
  "sub_render_diffs repl [] = []"
| "sub_render_diffs repl (c # cs) =
     (case match_render_diff (c # cs) of
        Some (g, rest) \<Rightarrow> repl g @ sub_render_diffs repl rest
      | None \<Rightarrow> c # sub_render_diffs repl cs)"
  by pat_completeness auto
termination
  by (relation "measure (\<lambda>(repl, s). length s)") (auto dest: match_render_diff_shorter)

text \<open>The two loops of \<open>parse_file_links\<close>, each appending to its list.\<close>

definition parse_file_links :: "world \<Rightarrow> string \<Rightarrow> string list \<times> string list" where
  "parse_file_links w content =
     (let diff_files =
            foldl (\<lambda>diff_files g. diff_files @ [normalize_file_uri_path (unquote w g)])
              [] (find_render_diffs content);
          read_files =
            foldl (\<lambda>read_files g.
                     (let full_path = normalize_file_uri_path (unquote w g) in
                      if full_path \<notin> set diff_files then read_files @ [full_path]
                      else read_files))
              [] (find_links content)
      in (diff_files, read_files))"

section \<open>Artifacts\<close>

text \<open>The function \<open>replace_render_diff\<close> local to \<open>process_artifact_with_links\<close>.\<close>

definition replace_render_diff :: "world \<Rightarrow> string \<Rightarrow> string \<Rightarrow> string" where
  "replace_render_diff w diff_target g =
     (let path = unquote w g;
          full_path = normalize_file_uri_path path;
          file_diff = fst (get_scoped_diff w [full_path] diff_target)
      in if file_diff \<noteq> [] then ''```diff\<newline>'' @ file_diff @ ''\<newline>```''
         else ''(No changes in '' @ full_path @ '')'')"

text \<open>One turn of the loop over the linked files: a file that cannot be read is skipped.\<close>

definition linked_file_step :: "world \<Rightarrow> string \<Rightarrow> string \<Rightarrow> string" where
  "linked_file_step w linked_context read_path =
     (case open_read w (JStr read_path) of
        Inr file_content \<Rightarrow>
          (let file_content' =
                 (if length file_content > 10000
                  then take 10000 file_content @ ''\<newline>... [TRUNCATED]''
                  else file_content)
           in linked_context @ ''\<newline>\<newline>--- LINKED FILE: '' @ read_path @ '' ---\<newline>''
                @ file_content')
      | Inl e \<Rightarrow> linked_context)"

definition process_artifact_with_links ::
  "world \<Rightarrow> string \<Rightarrow> string \<Rightarrow> exn + string \<times> string"
where
  "process_artifact_with_links w filepath diff_target =
     (case open_read w (JStr filepath) of
        Inl (FileNotFoundError m) \<Rightarrow> Inr (''(Artifact not found: '' @ filepath @ '')'', [])
      | Inl e \<Rightarrow> Inl e
      | Inr content \<Rightarrow>
          (let (diff_files, read_files) = parse_file_links w content;
               scoped_diff = fst (get_scoped_diff w diff_files diff_target);
               processed = sub_render_diffs (replace_render_diff w diff_target) content;
               linked_context = foldl (linked_file_step w) [] (take 5 read_files)
           in Inr (processed @ linked_context, scoped_diff)))"

section \<open>Tools\<close>

definition py_type_name :: "json \<Rightarrow> string" where
  "py_type_name v =
     (case v of JNull \<Rightarrow> ''NoneType'' | JBool _ \<Rightarrow> ''bool'' | JInt _ \<Rightarrow> ''int''
      | JFloat _ \<Rightarrow> ''float'' | JStr _ \<Rightarrow> ''str'' | JArr _ \<Rightarrow> ''list'' | JObj _ \<Rightarrow> ''dict'')"

text \<open>\<open>f"{v}"\<close>: a string is itself, any other value is formatted by \<open>str\<close>.\<close>

definition format_value :: "world \<Rightarrow> json \<Rightarrow> string" where
  "format_value w v = (case v of JStr s \<Rightarrow> s | _ \<Rightarrow> py_str w v)"

text \<open>\<open>for x in v\<close>: the items of a list, the characters of a string, the keys of a dict.\<close>

definition py_iter :: "json \<Rightarrow> exn + json list" where
  "py_iter v =
     (case v of
        JArr xs \<Rightarrow> Inr xs
      | JStr s \<Rightarrow> Inr (map (\<lambda>c. JStr [c]) s)
      | JObj kvs \<Rightarrow> Inr (map (\<lambda>kv. JStr (fst kv)) kvs)
      | _ \<Rightarrow> Inl (TypeError ([CHR 0x27] @ py_type_name v @ [CHR 0x27] @ '' object is not iterable'')))"

text \<open>\<open>arguments.get(key, default)\<close>: only a dict has the method.\<close>

definition dict_get :: "json \<Rightarrow> string \<Rightarrow> json \<Rightarrow> exn + json" where
  "dict_get arguments key dflt =
     (case arguments of
        JObj kvs \<Rightarrow> Inr (case map_of kvs key of Some v \<Rightarrow> v | None \<Rightarrow> dflt)
      | _ \<Rightarrow> Inl (AttributeError ([CHR 0x27] @ py_type_name arguments @ [CHR 0x27]
                 @ '' object has no attribute '' @ [CHR 0x27] @ ''get'' @ [CHR 0x27])))"

definition read_context_step :: "world \<Rightarrow> string \<Rightarrow> json \<Rightarrow> string" where
  "read_context_step w context filepath =
     (case open_read w filepath of
        Inr content \<Rightarrow>
          (let content' =
                 (if length content > 50000
                  then take 50000 content @ ''\<newline>\<newline>... [TRUNCATED] ...''
                  else content)
           in context @ ''\<newline>\<newline>--- FILE: '' @ format_value w filepath @ '' ---\<newline>''
                @ content')
      | Inl (FileNotFoundError m) \<Rightarrow>
          context @ ''\<newline>\<newline>(Note: Context file '' @ [CHR 0x27] @ format_value w filepath
            @ [CHR 0x27] @ '' not found)\<newline>''
      | Inl e \<Rightarrow>
          context @ ''\<newline>\<newline>(Error reading '' @ [CHR 0x27] @ format_value w filepath
            @ [CHR 0x27] @ '': '' @ exn_str e @ '')\<newline>'')"

text \<open>The argument is whatever the model sent as \<open>paths\<close>; the loop needs it iterable.\<close>

definition read_context_files :: "world \<Rightarrow> json \<Rightarrow> exn + string" where
  "read_context_files w filepaths =
     (case py_iter filepaths of
        Inl e \<Rightarrow> Inl e
      | Inr items \<Rightarrow> Inr (foldl (read_context_step w) [] items))"

text \<open>
  \<open>_execute_tool\<close>. A \<open>target\<close> that is not a string reaches \<open>subprocess.run\<close> inside the
  argument vector, which raises a \<open>TypeError\<close> that \<open>get_git_diff\<close> does not catch.
\<close>

definition execute_tool :: "world \<Rightarrow> string \<Rightarrow> json \<Rightarrow> exn + string" where
  "execute_tool w name arguments =
     (if name = ''get_uncommitted_changes'' then
        (case dict_get arguments ''target'' (JStr ''staged'') of
           Inl e \<Rightarrow> Inl e
         | Inr (JStr target) \<Rightarrow> fst (get_git_diff w target)
         | Inr v \<Rightarrow> Inl (TypeError (''expected str, bytes or os.PathLike object, not ''
                          @ py_type_name v)))
      else if name = ''read_files'' then
        (case dict_get arguments ''paths'' (JArr []) of
           Inl e \<Rightarrow> Inl e
         | Inr paths \<Rightarrow> read_context_files w paths)
      else if name = ''read_file'' then
        (case dict_get arguments ''path'' (JStr []) of
           Inl e \<Rightarrow> Inl e
         | Inr path \<Rightarrow> read_context_files w (JArr [path]))
      else if name = ''list_changed_files'' then
        (case fst (get_changed_files w) of
           Inl e \<Rightarrow> Inl e
         | Inr files \<Rightarrow>
             Inr (if files \<noteq> [] then py_join ''\<newline>'' files else ''No changed files found.''))
      else Inr (''Unknown tool: '' @ name))"

text \<open>The names declared in \<open>REVIEWER_TOOLS\<close>.\<close>

definition REVIEWER_TOOLS :: "string list" where
  "REVIEWER_TOOLS = [''get_uncommitted_changes'', ''read_files'', ''list_changed_files'']"

section \<open>The review loop\<close>

definition default_artifacts :: "string list" where
  "default_artifacts = [''implementation_plan.md'', ''task.md'', ''walkthrough.md'']"

text \<open>
  One turn of the loop that loads the artifacts, on \<open>artifact_context\<close> and
  \<open>all_diff_files\<close>. A missing artifact is skipped, any other exception is logged; an
  exception of \<open>process_artifact_with_links\<close> comes after \<open>all_diff_files\<close> was extended.
\<close>

definition load_artifact_step ::
  "world \<Rightarrow> string \<Rightarrow> string \<times> string list \<Rightarrow> string \<Rightarrow> string \<times> string list"
where
  "load_artifact_step w diff_target acc artifact =
     (case open_read w (JStr artifact) of
        Inl e \<Rightarrow> acc
      | Inr content \<Rightarrow>
          (let (diff_files, linked_files) = parse_file_links w content;
               all_diff_files = snd acc @ diff_files
           in (case process_artifact_with_links w artifact diff_target of
                 Inl e \<Rightarrow> (fst acc, all_diff_files)
               | Inr (processed_content, _) \<Rightarrow>
                   (fst acc @ ''\<newline>\<newline>--- ARTIFACT: '' @ artifact @ '' ---\<newline>''
                      @ processed_content,
                    all_diff_files))))"

definition load_artifacts ::
  "world \<Rightarrow> string \<Rightarrow> string list option \<Rightarrow> string \<times> string list"
where
  "load_artifacts w diff_target context_files =
     (let artifacts_to_read =
            default_artifacts @ (case context_files of None \<Rightarrow> [] | Some fs \<Rightarrow> fs)
      in foldl (load_artifact_step w diff_target) ([], []) artifacts_to_read)"

text \<open>The variable \<open>files_to_diff\<close>: the focus files, else the files of the artifacts, else \<open>None\<close>.\<close>

definition files_to_diff :: "string list option \<Rightarrow> string list \<Rightarrow> string list option" where
  "files_to_diff focus_files all_diff_files =
     (if focus_files \<noteq> None \<and> focus_files \<noteq> Some [] then focus_files
      else if all_diff_files \<noteq> [] then Some all_diff_files
      else None)"

text \<open>The variables \<open>diff_content\<close> and \<open>changed_files\<close>, and the commands started for them.\<close>

definition prefetch_diffs ::
  "world \<Rightarrow> string list option \<Rightarrow> string \<Rightarrow> (string \<times> string list) \<times> string list list"
where
  "prefetch_diffs w ftd diff_target =
     (case ftd of
        None \<Rightarrow> (([], []), [])
      | Some [] \<Rightarrow> (([], []), [])
      | Some files \<Rightarrow>
          (let r = get_scoped_diff w files diff_target in ((fst r, files), snd r)))"

definition system_prompt :: string where
  "system_prompt =
       ''You are a Senior Code Reviewer with access to tools.\<newline>'' @
       ''\<newline>'' @
       ''Your job is to review code changes. You have access to these tools:\<newline>'' @
       ''- get_uncommitted_changes: Get git diffs (staged, unstaged, or vs specific refs)\<newline>'' @
       ''- read_files: Read multiple source files at once (efficient - use this to batch file reads)\<newline>'' @
       ''- list_changed_files: See which files have been modified\<newline>'' @
       ''\<newline>'' @
       ''The user will provide you with context about what to review. Use your tools\<newline>'' @
       ''to gather any additional information you need. Be efficient - batch file reads together.\<newline>'' @
       ''\<newline>'' @
       ''REVIEW FOCUS:\<newline>'' @
       ''1. Does the code match the stated intent (if provided)?\<newline>'' @
       ''2. Are there logic errors, bugs, or security risks?\<newline>'' @
       ''3. Any missed requirements?\<newline>'' @
       ''4. Does it follow best practices?\<newline>'' @
       ''\<newline>'' @
       ''Be concise but thorough. Ignore minor style issues.''"

definition build_sections :: "string \<Rightarrow> string \<Rightarrow> string list \<Rightarrow> string \<Rightarrow> string \<Rightarrow> string list" where
  "build_sections task_description artifact_context changed_files diff_content diff_target =
     (let sections = [];
          sections = (if task_description \<noteq> []
                      then sections @ [''## Task Description\<newline>'' @ task_description]
                      else sections);
          sections = (if py_strip artifact_context \<noteq> []
                      then sections @ [''## Project Artifacts\<newline>'' @ artifact_context]
                      else sections);
          sections = (if changed_files \<noteq> []
                      then sections @ [''## Files to Review\<newline>'' @ py_join [CHR 0x0A] changed_files]
                      else sections);
          sections = (if py_strip diff_content \<noteq> []
                      then sections @ [''## Git Diff ('' @ diff_target @ '')\<newline>```diff\<newline>''
                                         @ diff_content @ ''\<newline>```'']
                      else sections)
      in sections)"

definition user_message :: "string list \<Rightarrow> string" where
  "user_message sections =
     (if sections \<noteq> [] then
        ''Please review the following:\<newline>\<newline>'' @ py_join ''\<newline>\<newline>'' sections
          @ ''\<newline>\<newline>---\<newline>Provide a thorough code review. Use your tools if you need more information.''
      else ''Please review the current code changes. Use list_changed_files and get_uncommitted_changes to see what''
             @ [CHR 0x27] @ ''s been modified.'')"

text \<open>The transcript before the first round.\<close>

definition initial_messages ::
  "world \<Rightarrow> string \<Rightarrow> string list option \<Rightarrow> string list option \<Rightarrow> string \<Rightarrow> message list"
where
  "initial_messages w diff_target context_files focus_files task_description =
     (let (artifact_context, all_diff_files) = load_artifacts w diff_target context_files;
          ftd = files_to_diff focus_files all_diff_files;
          (diff_content, changed_files) = fst (prefetch_diffs w ftd diff_target);
          sections = build_sections task_description artifact_context changed_files
                       diff_content diff_target
      in [SystemMessage system_prompt, UserMessage (user_message sections)])"

definition max_iterations :: "world \<Rightarrow> exn + int" where
  "max_iterations w =
     (case MAX_REVIEW_ITERATIONS w of
        Unset \<Rightarrow> Inr 10
      | IntValue n \<Rightarrow> Inr n
      | NotAnInt m \<Rightarrow> Inl (ValueError m))"

text \<open>
  \<open>json.loads(tool_call.function.arguments)\<close> under \<open>except json.JSONDecodeError\<close>: a
  text that is no JSON counts as the empty dict, any other exception of \<open>json.loads\<close> is
  not caught.
\<close>

definition func_args :: "world \<Rightarrow> tool_call \<Rightarrow> exn + json" where
  "func_args w tool_call =
     (case json_loads w (tc_arguments tool_call) of
        Inr v \<Rightarrow> Inr v
      | Inl (JSONDecodeError m) \<Rightarrow> Inr (JObj [])
      | Inl e \<Rightarrow> Inl e)"

text \<open>
  The loop over \<open>message.tool_calls\<close>: an exception of \<open>json.loads\<close> or of the tool leaves
  the loop, a result is appended to the transcript.
\<close>

fun run_tool_calls :: "world \<Rightarrow> message list \<Rightarrow> tool_call list \<Rightarrow> exn + message list" where
  "run_tool_calls w messages [] = Inr messages"
| "run_tool_calls w messages (tool_call # rest) =
     (let func_name = tc_name tool_call
      in (case func_args w tool_call of
            Inl e \<Rightarrow> Inl e
          | Inr arguments \<Rightarrow>
              (case execute_tool w func_name arguments of
                 Inl e \<Rightarrow> Inl e
               | Inr result \<Rightarrow>
                   run_tool_calls w (messages @ [ToolMessage (tc_id tool_call) result]) rest)))"

text \<open>
  What a review leaves behind: the value returned or the exception raised, the number of
  chat-completion calls made, and the transcript.
\<close>

record review_trace =
  outcome :: "exn + string"
  rounds :: nat
  transcript :: "message list"

text \<open>
  \<open>for iteration in range(max_iterations)\<close>, with the number of turns left, the transcript
  and the number of calls made so far.
\<close>

fun review_loop :: "world \<Rightarrow> nat \<Rightarrow> message list \<Rightarrow> nat \<Rightarrow> review_trace" where
  "review_loop w 0 messages calls =
     \<lparr>outcome = Inr ''Error: Maximum iterations reached without completing review.'',
      rounds = calls, transcript = messages\<rparr>"
| "review_loop w (Suc left) messages calls =
     (case chat_completions_create w messages of
        Inl e \<Rightarrow>
          \<lparr>outcome = Inr (''Error calling GLM-4.7 API: '' @ exn_str e),
           rounds = Suc calls, transcript = messages\<rparr>
      | Inr [] \<Rightarrow>
          \<lparr>outcome = Inl (IndexError ''list index out of range''),
           rounds = Suc calls, transcript = messages\<rparr>
      | Inr (message # _) \<Rightarrow>
          (if msg_tool_calls message = [] then
             \<lparr>outcome = Inr (case msg_content message of
                               None \<Rightarrow> ''No review generated.''
                             | Some text \<Rightarrow> if text = [] then ''No review generated.'' else text),
              rounds = Suc calls, transcript = messages\<rparr>
           else
             (case run_tool_calls w (messages @ [AssistantMessage message])
                     (msg_tool_calls message) of
                Inl e \<Rightarrow>
                  \<lparr>outcome = Inl e, rounds = Suc calls,
                   transcript = messages @ [AssistantMessage message]\<rparr>
              | Inr messages' \<Rightarrow> review_loop w left messages' (Suc calls))))"

definition run_agentic_review_trace ::
  "world \<Rightarrow> string \<Rightarrow> string list option \<Rightarrow> string list option \<Rightarrow> string \<Rightarrow> review_trace"
where
  "run_agentic_review_trace w diff_target context_files focus_files task_description =
     (if ZHIPU_API_KEY w = None \<or> ZHIPU_API_KEY w = Some [] then
        \<lparr>outcome = Inr ''Error: ZHIPU_API_KEY environment variable is not set.'',
         rounds = 0, transcript = []\<rparr>
      else
        (let messages = initial_messages w diff_target context_files focus_files task_description
         in (case max_iterations w of
               Inl e \<Rightarrow> \<lparr>outcome = Inl e, rounds = 0, transcript = messages\<rparr>
             | Inr n \<Rightarrow> review_loop w (nat n) messages 0)))"

definition run_agentic_review ::
  "world \<Rightarrow> string \<Rightarrow> string list option \<Rightarrow> string list option \<Rightarrow> string \<Rightarrow> exn + string"
where
  "run_agentic_review w diff_target context_files focus_files task_description =
     outcome (run_agentic_review_trace w diff_target context_files focus_files task_description)"

section \<open>The server's entry point\<close>

text \<open>The parameters in the signature of \<open>run_agentic_review\<close>; it takes no \<open>**kwargs\<close>.\<close>

definition run_agentic_review_params :: "string list" where
  "run_agentic_review_params = [''diff_target'', ''context_files'', ''focus_files'', ''task_description'']"

datatype pyarg = ArgStr string | ArgList "string list option"

text \<open>
  A Python call with keyword arguments only: a keyword that is no parameter of the function
  raises \<open>TypeError\<close>.
\<close>

definition bind_keywords ::
  "string \<Rightarrow> string list \<Rightarrow> (string \<times> pyarg) list \<Rightarrow> exn + (string \<times> pyarg) list"
where
  "bind_keywords fname params kwargs =
     (case filter (\<lambda>kv. fst kv \<notin> set params) kwargs of
        [] \<Rightarrow> Inr kwargs
      | kv # _ \<Rightarrow>
          Inl (TypeError (fname @ ''() got an unexpected keyword argument '' @ [CHR 0x27]
                 @ fst kv @ [CHR 0x27])))"

text \<open>
  \<open>review_with_context\<close>, with the module's \<open>WORKSPACE_DIR\<close> as first argument: the call of
  \<open>reviewer.run_agentic_review\<close> passes \<open>working_dir\<close> next to the four arguments.
\<close>

definition review_with_context ::
  "world \<Rightarrow> string \<Rightarrow> string \<Rightarrow> string list option \<Rightarrow> string list option \<Rightarrow> string \<Rightarrow> exn + string"
where
  "review_with_context w WORKSPACE_DIR diff_target context_files focus_files task_description =
     (case bind_keywords ''run_agentic_review'' run_agentic_review_params
             [(''working_dir'', ArgStr WORKSPACE_DIR),
              (''diff_target'', ArgStr diff_target),
              (''context_files'', ArgList context_files),
              (''focus_files'', ArgList focus_files),
              (''task_description'', ArgStr task_description)] of
        Inl e \<Rightarrow> Inl e
      | Inr bound \<Rightarrow> run_agentic_review w diff_target context_files focus_files task_description)"

section \<open>Concrete worlds\<close>

text \<open>
  A working tree without changes and without artifacts: every git command prints nothing,
  no file exists, the API key is set, the iteration cap is left at its default, and the model
  answers at once.
\<close>

definition quiet_world :: world where
  "quiet_world =
     \<lparr>subprocess_run = (\<lambda>argv. Inr []),
      open_read = (\<lambda>p. Inl (FileNotFoundError ''No such file or directory'')),
      as_posix = (\<lambda>p. p),
      py_str = (\<lambda>v. []),
      json_loads = (\<lambda>s. if s = ''{}'' then Inr (JObj [])
                         else Inl (JSONDecodeError ''Expecting value'')),
      utf8_decode = (\<lambda>bs. bs),
      set_iter = remdups,
      ZHIPU_API_KEY = Some ''key'',
      MAX_REVIEW_ITERATIONS = Unset,
      chat_completions_create = (\<lambda>ms. Inr [ChatMessage (Some ''LGTM'') []])\<rparr>"

text \<open>The same, on a machine where the git binary is not installed.\<close>

definition no_git_world :: world where
  "no_git_world =
     quiet_world\<lparr>subprocess_run :=
       (\<lambda>argv. Inl (FileNotFoundError ''[Errno 2] No such file or directory: git''))\<rparr>"




text \<open>A model that asks for the list of changed files in every round.\<close>

definition tool_loop_world :: world where
  "tool_loop_world =
     quiet_world\<lparr>chat_completions_create :=
       (\<lambda>ms. Inr [ChatMessage None [ToolCall ''call_1'' ''list_changed_files'' ''{}'']])\<rparr>"

text \<open>The same model, without an API key in the environment.\<close>

definition no_key_world :: world where
  "no_key_world =
     quiet_world\<lparr>ZHIPU_API_KEY := None,
       chat_completions_create :=
         (\<lambda>ms. Inr [ChatMessage None [ToolCall ''call_1'' ''list_changed_files'' ''{}'']])\<rparr>"

text \<open>The same model, on the machine without git.\<close>

definition no_git_loop_world :: world where
  "no_git_loop_world =
     no_git_world\<lparr>chat_completions_create :=
       (\<lambda>ms. Inr [ChatMessage None [ToolCall ''call_1'' ''list_changed_files'' ''{}'']])\<rparr>"

text \<open>A model whose first answer has no tool call and an empty text.\<close>

definition empty_reply_world :: world where
  "empty_reply_world =
     quiet_world\<lparr>chat_completions_create := (\<lambda>ms. Inr [ChatMessage (Some []) []])\<rparr>"

section \<open>The scoped diff\<close>

text \<open>
  What one path contributes to the scoped diff: a section headed \<open># Diff for:\<close> when the diff
  prints something that is not blank, nothing when it prints nothing or white space only, the
  note \<open># No diff available for:\<close> when git exits with an error, and the note
  \<open># Error getting diff for\<close> on any other exception.
\<close>

definition scoped_section :: "world \<Rightarrow> string \<Rightarrow> string \<Rightarrow> string list" where
  "scoped_section w target filepath =
     (case subprocess_run w (scoped_diff_args w target filepath) of
        Inr out \<Rightarrow>
          (if py_strip out = [] then []
           else [''# Diff for: '' @ filepath @ ''\<newline>'' @ out])
      | Inl (CalledProcessError m err) \<Rightarrow> [''# No diff available for: '' @ filepath]
      | Inl e \<Rightarrow> [''# Error getting diff for '' @ filepath @ '': '' @ exn_str e])"

lemma scoped_diff_step_eq:
  "scoped_diff_step w target acc filepath =
     (fst acc @ scoped_section w target filepath, snd acc @ [scoped_diff_args w target filepath])"
  by (simp add: scoped_diff_step_def scoped_section_def Let_def split: sum.splits exn.splits)

lemma foldl_scoped_diff_step:
  "foldl (scoped_diff_step w target) acc files =
     (fst acc @ concat (map (scoped_section w target) files),
      snd acc @ map (scoped_diff_args w target) files)"
  by (induction files arbitrary: acc) (simp_all add: scoped_diff_step_eq)

text \<open>
  C3, as the code has it: the scoped diff of the empty list is the empty string and starts no
  subprocess; otherwise one diff command is started per path, in order, and the result joins
  with a blank line the sections of the paths: \<open># Diff for: <path>\<close> and the diff when the
  output is not blank, no section at all when the output is blank,
  \<open># No diff available for: <path>\<close> when the diff command fails, and
  \<open># Error getting diff for <path>: <e>\<close> on any other exception.
\<close>

theorem get_scoped_diff_sections:
  "get_scoped_diff w [] target = ([], []) \<and>
   get_scoped_diff w files target =
     (py_join ''\<newline>\<newline>'' (concat (map (scoped_section w target) files)),
      map (scoped_diff_args w target) files)"
  by (simp add: get_scoped_diff_def foldl_scoped_diff_step Let_def)

text \<open>
  C3 as stated fails: where the diff of \<open>missing.txt\<close> prints nothing, the scoped diff is the
  empty string and holds no \<open># No diff available for: missing.txt\<close> section.
\<close>

theorem get_scoped_diff_empty_output_counterexample:
  "subprocess_run quiet_world (scoped_diff_args quiet_world ''staged'' ''missing.txt'') = Inr [] \<and>
   get_scoped_diff quiet_world [''missing.txt''] ''staged'' =
     ([], [[''git'', ''diff'', ''--staged'', ''--'', ''missing.txt'']])"
  by (simp add: get_scoped_diff_def scoped_diff_step_def scoped_diff_args_def quiet_world_def
      py_strip_def Let_def)

section \<open>Exclusion patterns\<close>

lemma foldl_append_concat:
  "foldl (\<lambda>acc x. acc @ f x) base xs = base @ concat (map f xs)"
  by (induction xs arbitrary: base) simp_all

text \<open>
  C7, as the code has it: only the full-tree diff of \<open>get_git_diff\<close> appends the exclusion
  patterns, each as \<open>-- :!<pattern>\<close> behind the command; the scoped diff runs one command
  per path that ends in \<open>-- <path>\<close>, and the changed-file listings run the two fixed
  \<open>--name-only\<close> commands (the second only after the first returned).
\<close>

theorem exclusions_only_in_full_diff:
  "snd (get_git_diff w target) =
     [(if target = ''staged'' then [''git'', ''diff'', ''--staged'']
       else if target = ''unstaged'' then [''git'', ''diff'']
       else [''git'', ''diff'', target])
      @ concat (map (\<lambda>pattern. [''--'', '':!'' @ pattern]) EXCLUDE_PATTERNS)] \<and>
   snd (get_scoped_diff w files target) =
     map (\<lambda>filepath.
            (if target = ''staged'' then [''git'', ''diff'', ''--staged'']
             else if target = ''unstaged'' then [''git'', ''diff'']
             else [''git'', ''diff'', target])
            @ [''--'', as_posix w filepath]) files \<and>
   (snd (get_changed_files w) = [[''git'', ''diff'', ''--staged'', ''--name-only'']] \<or>
    snd (get_changed_files w) =
      [[''git'', ''diff'', ''--staged'', ''--name-only''], [''git'', ''diff'', ''--name-only'']])"
proof (intro conjI)
  show "snd (get_git_diff w target) =
     [(if target = ''staged'' then [''git'', ''diff'', ''--staged'']
       else if target = ''unstaged'' then [''git'', ''diff'']
       else [''git'', ''diff'', target])
      @ concat (map (\<lambda>pattern. [''--'', '':!'' @ pattern]) EXCLUDE_PATTERNS)]"
    by (simp add: get_git_diff_def get_git_diff_args_def foldl_append_concat Let_def)
  show "snd (get_scoped_diff w files target) =
     map (\<lambda>filepath.
            (if target = ''staged'' then [''git'', ''diff'', ''--staged'']
             else if target = ''unstaged'' then [''git'', ''diff'']
             else [''git'', ''diff'', target])
            @ [''--'', as_posix w filepath]) files"
    by (simp add: get_scoped_diff_def foldl_scoped_diff_step scoped_diff_args_def Let_def)
  show "snd (get_changed_files w) = [[''git'', ''diff'', ''--staged'', ''--name-only'']] \<or>
    snd (get_changed_files w) =
      [[''git'', ''diff'', ''--staged'', ''--name-only''], [''git'', ''diff'', ''--name-only'']]"
    by (simp add: get_changed_files_def changed_staged_args_def changed_unstaged_args_def
        split: sum.splits exn.splits)
qed

text \<open>
  C7 as stated fails: the scoped diff of \<open>package.json\<close> and the two changed-file listings
  start commands that carry no exclusion pattern.
\<close>

theorem exclusions_everywhere_counterexample:
  "snd (get_scoped_diff quiet_world [''package.json''] ''staged'') =
     [[''git'', ''diff'', ''--staged'', ''--'', ''package.json'']] \<and>
   snd (get_changed_files quiet_world) =
     [[''git'', ''diff'', ''--staged'', ''--name-only''], [''git'', ''diff'', ''--name-only'']]"
  by (simp add: get_scoped_diff_def scoped_diff_step_def scoped_diff_args_def quiet_world_def
      get_changed_files_def changed_staged_args_def changed_unstaged_args_def Let_def)

section \<open>Changed files\<close>

text \<open>
  C10 at a failing input: where the git binary is missing, \<open>get_changed_files\<close> raises the
  \<open>FileNotFoundError\<close> of the subprocess instead of returning the empty list, while
  \<open>get_git_diff\<close> turns the same failure into a text.
\<close>

theorem get_changed_files_git_missing:
  "fst (get_changed_files no_git_world) =
     Inl (FileNotFoundError ''[Errno 2] No such file or directory: git'') \<and>
   fst (get_git_diff no_git_world ''staged'') =
     Inr ''Error: git is not installed or not in PATH''"
  by (simp add: get_changed_files_def get_git_diff_def no_git_world_def quiet_world_def Let_def)

section \<open>The entry point\<close>

text \<open>
  C4 at every input: the call of \<open>run_agentic_review\<close> in \<open>review_with_context\<close> passes the
  keyword \<open>working_dir\<close>, which is no parameter of the function, so every call raises
  \<open>TypeError\<close> and no review is run.
\<close>

theorem review_with_context_raises:
  "review_with_context w WORKSPACE_DIR diff_target context_files focus_files task_description =
     Inl (TypeError (''run_agentic_review() got an unexpected keyword argument ''
            @ [CHR 0x27] @ ''working_dir'' @ [CHR 0x27]))"
  by (simp add: review_with_context_def bind_keywords_def run_agentic_review_params_def)

section \<open>Tool dispatch\<close>

text \<open>
  C5, as the code has it: for every name that is none of the three registered tools and not
  the legacy name \<open>read_file\<close>, \<open>_execute_tool\<close> returns the text \<open>Unknown tool: <name>\<close>,
  whatever the arguments are, and raises nothing.
\<close>

theorem unknown_tool_result:
  assumes "name \<notin> set REVIEWER_TOOLS" and "name \<noteq> ''read_file''"
  shows "execute_tool w name arguments = Inr (''Unknown tool: '' @ name)"
  using assms by (simp add: execute_tool_def REVIEWER_TOOLS_def)

theorem unknown_tool_result_witness:
  "''delete_repository'' \<notin> set REVIEWER_TOOLS \<and>
   ''delete_repository'' \<noteq> ''read_file'' \<and>
   execute_tool quiet_world ''delete_repository'' (JArr []) = Inr ''Unknown tool: delete_repository''"
  using unknown_tool_result [of "''delete_repository''" quiet_world "JArr []"]
  by (simp add: REVIEWER_TOOLS_def)

text \<open>
  C5 as stated fails: \<open>read_file\<close> is none of the three registered tools, and its dispatch
  reads the file named by \<open>path\<close> (here the default, the empty path) instead of answering
  \<open>Unknown tool: read_file\<close>.
\<close>

theorem read_file_dispatch_counterexample:
  "''read_file'' \<notin> set REVIEWER_TOOLS \<and>
   execute_tool quiet_world ''read_file'' (JObj []) =
     Inr (''\<newline>\<newline>(Note: Context file '' @ [CHR 0x27, CHR 0x27] @ '' not found)\<newline>'')"
  by (simp add: REVIEWER_TOOLS_def execute_tool_def dict_get_def read_context_files_def
      py_iter_def read_context_step_def format_value_def quiet_world_def)

section \<open>Links of a document\<close>

lemma char_of_32: "char_of (32::nat) = CHR '' ''"
  by code_simp

lemma unquote_example: "unquote w ''a%20b.txt'' = ''a b.txt''"
  by (simp add: unquote_def bytes_decode_def is_ascii_def hex_digit_def char_of_32)

lemma foldl_append_map:
  "foldl (\<lambda>acc x. acc @ [f x]) base xs = base @ map f xs"
  by (induction xs arbitrary: base) simp_all

lemma foldl_append_filter:
  "foldl (\<lambda>acc x. if P (f x) then acc @ [f x] else acc) base xs = base @ filter P (map f xs)"
  by (induction xs arbitrary: base) simp_all

lemma parse_file_links_eq:
  "parse_file_links w doc =
     (map (\<lambda>g. normalize_file_uri_path (unquote w g)) (find_render_diffs doc),
      filter (\<lambda>p. p \<notin> set (map (\<lambda>g. normalize_file_uri_path (unquote w g)) (find_render_diffs doc)))
        (map (\<lambda>g. normalize_file_uri_path (unquote w g)) (find_links doc)))"
  unfolding parse_file_links_def Let_def
  using foldl_append_map [of "\<lambda>g. normalize_file_uri_path (unquote w g)" "[]"]
    foldl_append_filter [of _ "\<lambda>g. normalize_file_uri_path (unquote w g)" "[]"]
  by simp

lemma match_directive_example:
  "match_render_diff (''render_diffs(file:///a%20b.txt)'' @ rest) = Some (''a%20b.txt'', rest)"
  by (simp add: match_render_diff_def is_space_def)

lemma find_directive_example:
  "find_render_diffs (''render_diffs(file:///a%20b.txt)'' @ rest) = ''a%20b.txt'' # find_render_diffs rest"
  using match_directive_example [of rest] by simp

text \<open>
  C8, as the code has it: \<open>diff_files\<close> holds, in order, the path of every match of the
  \<open>render_diffs\<close> pattern, percent-decoded and normalized (kept when its second character is a
  colon, else given a leading slash when it has none); \<open>read_files\<close> holds, in order, the
  normalized paths of the markdown links that are not in \<open>diff_files\<close>, a path linked twice
  being listed twice. A document that starts with \<open>render_diffs(file:///a%20b.txt)\<close> has
  \<open>/a b.txt\<close> in \<open>diff_files\<close> and not in \<open>read_files\<close>.
\<close>

theorem parse_file_links_lists:
  "fst (parse_file_links w doc) =
     map (\<lambda>g. normalize_file_uri_path (unquote w g)) (find_render_diffs doc) \<and>
   snd (parse_file_links w doc) =
     filter (\<lambda>p. p \<notin> set (fst (parse_file_links w doc)))
       (map (\<lambda>g. normalize_file_uri_path (unquote w g)) (find_links doc)) \<and>
   normalize_file_uri_path p =
     (if 1 < length p \<and> p ! 1 = CHR '':'' then p
      else if take 1 p = ''/'' then p else ''/'' @ p) \<and>
   ''/a b.txt'' \<in> set (fst (parse_file_links w (''render_diffs(file:///a%20b.txt)'' @ rest))) \<and>
   ''/a b.txt'' \<notin> set (snd (parse_file_links w (''render_diffs(file:///a%20b.txt)'' @ rest)))"
proof (intro conjI)
  show "fst (parse_file_links w doc) =
     map (\<lambda>g. normalize_file_uri_path (unquote w g)) (find_render_diffs doc)"
    by (simp add: parse_file_links_eq)
  show "snd (parse_file_links w doc) =
     filter (\<lambda>p. p \<notin> set (fst (parse_file_links w doc)))
       (map (\<lambda>g. normalize_file_uri_path (unquote w g)) (find_links doc))"
    by (simp add: parse_file_links_eq)
  show "normalize_file_uri_path p =
     (if 1 < length p \<and> p ! 1 = CHR '':'' then p
      else if take 1 p = ''/'' then p else ''/'' @ p)"
    by (cases p) (simp_all add: normalize_file_uri_path_def)
  have n: "normalize_file_uri_path ''a b.txt'' = ''/a b.txt''"
    by (simp add: normalize_file_uri_path_def)
  show in_diff: "''/a b.txt'' \<in> set (fst (parse_file_links w (''render_diffs(file:///a%20b.txt)'' @ rest)))"
    unfolding parse_file_links_eq fst_conv find_directive_example
    by (simp add: unquote_example n)
  show "''/a b.txt'' \<notin> set (snd (parse_file_links w (''render_diffs(file:///a%20b.txt)'' @ rest)))"
    using in_diff unfolding parse_file_links_eq by simp
qed

text \<open>
  C8 as stated fails: two links to the same file give the path twice in \<open>read_files\<close>; and
  a document can contain \<open>render_diffs(file:///a%20b.txt)\<close> inside the greedy group of an
  earlier directive, so that \<open>/a b.txt\<close> is missing from \<open>diff_files\<close> and a link to it is
  listed in \<open>read_files\<close>.
\<close>

theorem parse_file_links_counterexample:
  "snd (parse_file_links quiet_world ''[a](file:///x) [b](file:///x)'') = [''/x'', ''/x''] \<and>
   parse_file_links quiet_world
      ''render_diffs(file:///x render_diffs(file:///a%20b.txt) [c](file:///a%20b.txt)'' =
     ([''/x render_diffs(file:///a b.txt''], [''/a b.txt''])"
proof (intro conjI)
  show "snd (parse_file_links quiet_world ''[a](file:///x) [b](file:///x)'') = [''/x'', ''/x'']"
    by (simp add: parse_file_links_eq match_render_diff_def match_link_def unquote_def
        normalize_file_uri_path_def)
  have m: "match_render_diff
      ''render_diffs(file:///x render_diffs(file:///a%20b.txt) [c](file:///a%20b.txt)'' =
      Some (''x render_diffs(file:///a%20b.txt'', '' [c](file:///a%20b.txt)'')"
    by (simp add: match_render_diff_def is_space_def)
  have u: "unquote quiet_world ''x render_diffs(file:///a%20b.txt'' = ''x render_diffs(file:///a b.txt''"
    by (simp add: unquote_def bytes_decode_def is_ascii_def hex_digit_def char_of_32)
  have f: "find_render_diffs
      ''render_diffs(file:///x render_diffs(file:///a%20b.txt) [c](file:///a%20b.txt)'' =
      [''x render_diffs(file:///a%20b.txt'']"
    using m by (simp add: match_render_diff_def)
  have l: "find_links
      ''render_diffs(file:///x render_diffs(file:///a%20b.txt) [c](file:///a%20b.txt)'' =
      [''a%20b.txt'']"
    by (simp add: match_link_def)
  show "parse_file_links quiet_world
      ''render_diffs(file:///x render_diffs(file:///a%20b.txt) [c](file:///a%20b.txt)'' =
     ([''/x render_diffs(file:///a b.txt''], [''/a b.txt''])"
    unfolding parse_file_links_eq f l
    by (simp add: u unquote_example normalize_file_uri_path_def)
qed

section \<open>Which files are diffed\<close>













section \<open>Processing an artifact\<close>




section \<open>The rounds of a review\<close>

lemma run_tool_calls_returns:
  assumes "\<forall>tc \<in> set tcs. \<exists>a r. func_args w tc = Inr a \<and> execute_tool w (tc_name tc) a = Inr r"
  shows "\<exists>ms'. run_tool_calls w ms tcs = Inr ms'"
  using assms
proof (induction tcs arbitrary: ms)
  case Nil
  show ?case by simp
next
  case (Cons tc tcs)
  from Cons.prems obtain a r where
    a: "func_args w tc = Inr a" and r: "execute_tool w (tc_name tc) a = Inr r"
    by auto
  from Cons.prems have "\<forall>tc \<in> set tcs.
      \<exists>a r. func_args w tc = Inr a \<and> execute_tool w (tc_name tc) a = Inr r"
    by simp
  from Cons.IH [OF this, of "ms @ [ToolMessage (tc_id tc) r]"] show ?case
    by (simp add: a r)
qed

lemma review_loop_rounds_le:
  "rounds (review_loop w left ms calls) \<le> calls + left"
proof (induction left arbitrary: ms calls)
  case 0
  show ?case by simp
next
  case (Suc left)
  have step: "rounds (review_loop w left ms' (Suc calls)) \<le> Suc (calls + left)" for ms'
    using Suc.IH [of ms' "Suc calls"] by simp
  show ?case
    by (simp add: step split: sum.splits list.splits)
qed

lemma review_loop_exhausts:
  assumes model: "\<forall>ms. \<exists>m rest. chat_completions_create w ms = Inr (m # rest) \<and> msg_tool_calls m \<noteq> []"
    and tools: "\<forall>ms m rest tc. chat_completions_create w ms = Inr (m # rest) \<longrightarrow>
        tc \<in> set (msg_tool_calls m) \<longrightarrow>
        (\<exists>a r. func_args w tc = Inr a \<and> execute_tool w (tc_name tc) a = Inr r)"
  shows "rounds (review_loop w left ms calls) = calls + left \<and>
    outcome (review_loop w left ms calls) =
      Inr ''Error: Maximum iterations reached without completing review.''"
proof (induction left arbitrary: ms calls)
  case 0
  show ?case by simp
next
  case (Suc left)
  from model obtain m rest where
    c: "chat_completions_create w ms = Inr (m # rest)" and t: "msg_tool_calls m \<noteq> []"
    by blast
  from tools c have "\<forall>tc \<in> set (msg_tool_calls m).
      \<exists>a r. func_args w tc = Inr a \<and> execute_tool w (tc_name tc) a = Inr r"
    by blast
  then obtain ms' where
    r: "run_tool_calls w (ms @ [AssistantMessage m]) (msg_tool_calls m) = Inr ms'"
    using run_tool_calls_returns by blast
  show ?case
    using Suc.IH [of ms' "Suc calls"] by (simp add: c t r)
qed

text \<open>
  C1, as the code has it. Whatever the model does, a review makes at most as many
  chat-completion calls as the iteration cap says (none when the cap is zero or negative, and
  none when the cap is no integer), and the cap is 10 when \<open>MAX_REVIEW_ITERATIONS\<close> is not
  set. Without an API key the review returns the text of the missing key after no round.
  When the API key is set, the model asks for at least one tool in every round, and for every
  tool it asks for \<open>json.loads\<close> raises nothing but \<open>JSONDecodeError\<close> on the arguments and
  the tool returns, the review makes exactly as many calls as the cap says and returns the
  fixed text of the exceeded cap.
\<close>

theorem review_rounds_capped:
  "(max_iterations w = Inr n \<longrightarrow>
      rounds (run_agentic_review_trace w diff_target context_files focus_files task_description)
        \<le> nat n) \<and>
   (max_iterations w = Inl e \<longrightarrow>
      rounds (run_agentic_review_trace w diff_target context_files focus_files task_description)
        = 0) \<and>
   (MAX_REVIEW_ITERATIONS w = Unset \<longrightarrow> max_iterations w = Inr 10) \<and>
   (ZHIPU_API_KEY w = None \<or> ZHIPU_API_KEY w = Some [] \<longrightarrow>
      rounds (run_agentic_review_trace w diff_target context_files focus_files task_description)
        = 0 \<and>
      run_agentic_review w diff_target context_files focus_files task_description =
        Inr ''Error: ZHIPU_API_KEY environment variable is not set.'') \<and>
   (max_iterations w = Inr n \<and>
    ZHIPU_API_KEY w \<noteq> None \<and> ZHIPU_API_KEY w \<noteq> Some [] \<and>
    (\<forall>ms. \<exists>m rest. chat_completions_create w ms = Inr (m # rest) \<and> msg_tool_calls m \<noteq> []) \<and>
    (\<forall>ms m rest tc. chat_completions_create w ms = Inr (m # rest) \<longrightarrow>
       tc \<in> set (msg_tool_calls m) \<longrightarrow>
       (\<exists>a r. func_args w tc = Inr a \<and> execute_tool w (tc_name tc) a = Inr r)) \<longrightarrow>
      rounds (run_agentic_review_trace w diff_target context_files focus_files task_description)
        = nat n \<and>
      run_agentic_review w diff_target context_files focus_files task_description =
        Inr ''Error: Maximum iterations reached without completing review.'')"
proof (intro conjI impI)
  assume cap: "max_iterations w = Inr n"
  show "rounds (run_agentic_review_trace w diff_target context_files focus_files task_description)
           \<le> nat n"
    using review_loop_rounds_le [of w "nat n" _ 0]
    by (simp add: run_agentic_review_trace_def cap Let_def)
next
  assume "max_iterations w = Inl e"
  then show "rounds (run_agentic_review_trace w diff_target context_files focus_files
      task_description) = 0"
    by (simp add: run_agentic_review_trace_def Let_def)
next
  assume "MAX_REVIEW_ITERATIONS w = Unset"
  then show "max_iterations w = Inr 10"
    by (simp add: max_iterations_def)
next
  assume nokey: "ZHIPU_API_KEY w = None \<or> ZHIPU_API_KEY w = Some []"
  then show "rounds (run_agentic_review_trace w diff_target context_files focus_files
      task_description) = 0"
    by (simp add: run_agentic_review_trace_def)
  from nokey show "run_agentic_review w diff_target context_files focus_files task_description =
        Inr ''Error: ZHIPU_API_KEY environment variable is not set.''"
    by (simp add: run_agentic_review_def run_agentic_review_trace_def)
next
  assume h: "max_iterations w = Inr n \<and>
    ZHIPU_API_KEY w \<noteq> None \<and> ZHIPU_API_KEY w \<noteq> Some [] \<and>
    (\<forall>ms. \<exists>m rest. chat_completions_create w ms = Inr (m # rest) \<and> msg_tool_calls m \<noteq> []) \<and>
    (\<forall>ms m rest tc. chat_completions_create w ms = Inr (m # rest) \<longrightarrow>
       tc \<in> set (msg_tool_calls m) \<longrightarrow>
       (\<exists>a r. func_args w tc = Inr a \<and> execute_tool w (tc_name tc) a = Inr r))"
  then have cap: "max_iterations w = Inr n"
    by blast
  from h have ex: "rounds (review_loop w (nat n) ms 0) = 0 + nat n \<and>
    outcome (review_loop w (nat n) ms 0) =
      Inr ''Error: Maximum iterations reached without completing review.''" for ms
    using review_loop_exhausts [of w "nat n" ms 0] by blast
  from h obtain k where key: "ZHIPU_API_KEY w = Some k" "k \<noteq> []"
    by (cases "ZHIPU_API_KEY w") auto
  show "rounds (run_agentic_review_trace w diff_target context_files focus_files task_description)
            = nat n"
    using ex by (simp add: run_agentic_review_trace_def cap key Let_def)
  show "run_agentic_review w diff_target context_files focus_files task_description =
            Inr ''Error: Maximum iterations reached without completing review.''"
    using ex by (simp add: run_agentic_review_def run_agentic_review_trace_def cap key Let_def)
qed

lemma list_changed_files_quiet:
  "execute_tool tool_loop_world ''list_changed_files'' (JObj []) = Inr ''No changed files found.''"
  by (simp add: execute_tool_def get_changed_files_def tool_loop_world_def quiet_world_def
      py_strip_def Let_def)

theorem review_rounds_capped_witness:
  "max_iterations tool_loop_world = Inr 10 \<and>
   rounds (run_agentic_review_trace tool_loop_world ''staged'' None None []) = 10 \<and>
   run_agentic_review tool_loop_world ''staged'' None None [] =
     Inr ''Error: Maximum iterations reached without completing review.'' \<and>
   rounds (run_agentic_review_trace no_key_world ''staged'' None None []) = 0 \<and>
   run_agentic_review no_key_world ''staged'' None None [] =
     Inr ''Error: ZHIPU_API_KEY environment variable is not set.''"
proof -
  have cap: "max_iterations tool_loop_world = Inr 10"
    by (simp add: max_iterations_def tool_loop_world_def quiet_world_def)
  have key: "ZHIPU_API_KEY tool_loop_world = Some ''key''"
    by (simp add: tool_loop_world_def quiet_world_def)
  have nokey: "ZHIPU_API_KEY no_key_world = None"
    by (simp add: no_key_world_def)
  have chat: "chat_completions_create tool_loop_world ms =
      Inr [ChatMessage None [ToolCall ''call_1'' ''list_changed_files'' ''{}'']]" for ms
    by (simp add: tool_loop_world_def)
  have args: "func_args tool_loop_world (ToolCall ''call_1'' ''list_changed_files'' ''{}'') =
      Inr (JObj [])"
    by (simp add: func_args_def tool_loop_world_def quiet_world_def)
  have t1: "rounds (run_agentic_review_trace tool_loop_world ''staged'' None None []) = nat 10 \<and>
      run_agentic_review tool_loop_world ''staged'' None None [] =
        Inr ''Error: Maximum iterations reached without completing review.''"
    using review_rounds_capped [where w = tool_loop_world and n = 10 and diff_target = "''staged''"
        and context_files = None and focus_files = None and task_description = "[]",
        THEN conjunct2, THEN conjunct2, THEN conjunct2, THEN conjunct2]
    by (simp add: cap key chat args list_changed_files_quiet)
  have t2: "rounds (run_agentic_review_trace no_key_world ''staged'' None None []) = 0 \<and>
      run_agentic_review no_key_world ''staged'' None None [] =
        Inr ''Error: ZHIPU_API_KEY environment variable is not set.''"
    using review_rounds_capped [where w = no_key_world and diff_target = "''staged''"
        and context_files = None and focus_files = None and task_description = "[]",
        THEN conjunct2, THEN conjunct2, THEN conjunct2, THEN conjunct1]
    by (simp add: nokey)
  show ?thesis
    using t1 t2 cap by simp
qed

text \<open>
  C1 as stated fails: without an API key the review returns the text of the missing key
  after no round at all, although the model would ask for a tool in every round; and where a
  tool raises (here \<open>list_changed_files\<close> without git) the review raises in its first round.
\<close>

theorem review_rounds_counterexample:
  "max_iterations no_key_world = Inr 10 \<and>
   run_agentic_review_trace no_key_world ''staged'' None None [] =
     \<lparr>outcome = Inr ''Error: ZHIPU_API_KEY environment variable is not set.'',
      rounds = 0, transcript = []\<rparr> \<and>
   max_iterations no_git_loop_world = Inr 10 \<and>
   rounds (run_agentic_review_trace no_git_loop_world ''staged'' None None []) = 1 \<and>
   run_agentic_review no_git_loop_world ''staged'' None None [] =
     Inl (FileNotFoundError ''[Errno 2] No such file or directory: git'')"
proof -
  have key: "ZHIPU_API_KEY no_git_loop_world = Some ''key''"
    by (simp add: no_git_loop_world_def no_git_world_def quiet_world_def)
  have cap: "max_iterations no_git_loop_world = Inr 10"
    by (simp add: max_iterations_def no_git_loop_world_def no_git_world_def quiet_world_def)
  have chat: "chat_completions_create no_git_loop_world ms =
      Inr [ChatMessage None [ToolCall ''call_1'' ''list_changed_files'' ''{}'']]" for ms
    by (simp add: no_git_loop_world_def)
  have args: "func_args no_git_loop_world (ToolCall ''call_1'' ''list_changed_files'' ''{}'') =
      Inr (JObj [])"
    by (simp add: func_args_def no_git_loop_world_def no_git_world_def quiet_world_def)
  have tool: "execute_tool no_git_loop_world ''list_changed_files'' v =
      Inl (FileNotFoundError ''[Errno 2] No such file or directory: git'')" for v
    by (simp add: execute_tool_def get_changed_files_def no_git_loop_world_def no_git_world_def
        quiet_world_def)
  have trace: "run_agentic_review_trace no_git_loop_world ''staged'' None None [] =
      \<lparr>outcome = Inl (FileNotFoundError ''[Errno 2] No such file or directory: git''),
       rounds = 1,
       transcript = initial_messages no_git_loop_world ''staged'' None None []
         @ [AssistantMessage (ChatMessage None [ToolCall ''call_1'' ''list_changed_files'' ''{}''])]\<rparr>"
    by (simp add: run_agentic_review_trace_def key cap chat args tool numeral_eq_Suc Let_def)
  show ?thesis
    by (simp add: cap trace run_agentic_review_def)
      (simp add: max_iterations_def run_agentic_review_trace_def no_key_world_def quiet_world_def)
qed

text \<open>
  C2, as the code has it: when the API key is set, the cap is at least 1 and the first
  response of the model carries no tool call, the review makes exactly one chat-completion
  call and returns the text of the response as it is when it is not empty, and the fixed text
  \<open>No review generated.\<close> when the response has no text or an empty one.
\<close>

theorem first_answer_is_result:
  assumes key: "ZHIPU_API_KEY w = Some k" "k \<noteq> []"
    and cap: "max_iterations w = Inr n" "1 \<le> n"
    and first: "chat_completions_create w
                  (initial_messages w diff_target context_files focus_files task_description) =
                Inr (m # rest)"
    and no_tools: "msg_tool_calls m = []"
  shows "rounds (run_agentic_review_trace w diff_target context_files focus_files task_description) = 1 \<and>
    (msg_content m = Some reply \<and> reply \<noteq> [] \<longrightarrow>
       run_agentic_review w diff_target context_files focus_files task_description = Inr reply) \<and>
    (msg_content m = None \<or> msg_content m = Some [] \<longrightarrow>
       run_agentic_review w diff_target context_files focus_files task_description =
         Inr ''No review generated.'')"
proof -
  from cap(2) obtain left where left: "nat n = Suc left"
    by (cases "nat n") auto
  show ?thesis
    by (auto simp: run_agentic_review_def run_agentic_review_trace_def key cap(1) left first
        no_tools Let_def)
qed

theorem first_answer_is_result_witness:
  "rounds (run_agentic_review_trace quiet_world ''staged'' None None []) = 1 \<and>
   run_agentic_review quiet_world ''staged'' None None [] = Inr ''LGTM'' \<and>
   run_agentic_review empty_reply_world ''staged'' None None [] = Inr ''No review generated.''"
proof -
  have cap: "max_iterations quiet_world = Inr 10" "max_iterations empty_reply_world = Inr 10"
    by (simp_all add: max_iterations_def empty_reply_world_def quiet_world_def)
  have key: "ZHIPU_API_KEY quiet_world = Some ''key''" "ZHIPU_API_KEY empty_reply_world = Some ''key''"
    by (simp_all add: empty_reply_world_def quiet_world_def)
  have chat: "chat_completions_create quiet_world ms = Inr [ChatMessage (Some ''LGTM'') []]"
    "chat_completions_create empty_reply_world ms = Inr [ChatMessage (Some []) []]" for ms
    by (simp_all add: empty_reply_world_def quiet_world_def)
  show ?thesis
    using first_answer_is_result [OF key(1) _ cap(1) _ chat(1), where reply = "''LGTM''"]
      first_answer_is_result [OF key(2) _ cap(2) _ chat(2)]
    by simp
qed

text \<open>
  C2 as stated fails: a first response with no tool call and the empty text is answered with
  \<open>No review generated.\<close>, not with the text of the response.
\<close>

theorem empty_answer_counterexample:
  "chat_completions_create empty_reply_world
     (initial_messages empty_reply_world ''staged'' None None []) = Inr [ChatMessage (Some []) []] \<and>
   run_agentic_review_trace empty_reply_world ''staged'' None None [] =
     \<lparr>outcome = Inr ''No review generated.'', rounds = 1,
      transcript = initial_messages empty_reply_world ''staged'' None None []\<rparr>"
proof -
  have cap: "max_iterations empty_reply_world = Inr 10"
    by (simp add: max_iterations_def empty_reply_world_def quiet_world_def)
  have key: "ZHIPU_API_KEY empty_reply_world = Some ''key''"
    by (simp add: empty_reply_world_def quiet_world_def)
  have chat: "chat_completions_create empty_reply_world ms = Inr [ChatMessage (Some []) []]" for ms
    by (simp add: empty_reply_world_def)
  show ?thesis
    by (simp add: run_agentic_review_trace_def key cap chat numeral_eq_Suc Let_def)
qed

end
